theory Spec2Isabelle
  imports Main
begin

section \<open>Entities and the credential store\<close>

text \<open>
  Modelled from the spec: the entity classes (User, Organization, OrganizationUser,
  GroupPermission, UserGroupPermission, AppGroupPermission, App) are declared outside
  the sources at hand. Their fields are those of the data model of the specification,
  which are the ones that \<^verbatim>\<open>users.service.ts\<close> and the authentication service read
  and write.

  The services reach the rows of a relational store through an ORM. A table is a list
  of rows, a lookup (\<^verbatim>\<open>findOne\<close>, \<^verbatim>\<open>getOne\<close>) returns the first row that matches, in
  table order, and \<open>None\<close> stands for JavaScript's \<^verbatim>\<open>undefined\<close> result of a lookup
  that misses. A nullable column is an \<open>option\<close>, with \<open>None\<close> for \<^verbatim>\<open>null\<close>.

  \<open>user_organizationId\<close> is the property \<^verbatim>\<open>user.organizationId\<close>, the organisation of
  the session. It is not in the data model of the specification: \<^verbatim>\<open>create\<close> never
  writes it (it writes \<^verbatim>\<open>defaultOrganizationId\<close>), and \<^verbatim>\<open>login\<close> and
  \<^verbatim>\<open>switchOrganization\<close> assign it on the user they have loaded. It is optional here,
  and empty on a row that nobody assigned it on.
\<close>

record user =
  user_id :: string
  user_email :: string
  user_firstName :: "string option"
  user_lastName :: "string option"
  user_password :: string
  user_role :: "string option"
  user_defaultOrganizationId :: string
  user_invitationToken :: "string option"
  user_forgotPasswordToken :: "string option"
  user_organizationId :: "string option"

record organization =
  org_id :: string
  org_name :: string

record organization_user =
  ou_id :: string
  ou_userId :: string
  ou_organizationId :: string
  ou_status :: string
  ou_invitationToken :: "string option"

record group_permission =
  gp_id :: string
  gp_organizationId :: string
  gp_group :: string
  gp_appCreate :: bool
  gp_appDelete :: bool
  gp_folderCreate :: bool

record user_group_permission =
  ugp_userId :: string
  ugp_groupPermissionId :: string

record app_group_permission =
  agp_appId :: string
  agp_groupPermissionId :: string
  agp_read :: bool
  agp_update :: bool
  agp_delete :: bool

record app =
  app_id :: string
  app_userId :: string

datatype mail =
    WelcomeEmail string "string option" "string option"
  | PasswordResetEmail string string

text \<open>
  The state the two services act on: one table per repository, and the mails handed to
  the mailer so far.
\<close>

record world =
  usersRepository :: "user list"
  organizationsRepository :: "organization list"
  organizationUsersRepository :: "organization_user list"
  groupPermissionRepository :: "group_permission list"
  userGroupPermissionRepository :: "user_group_permission list"
  appGroupPermissionRepository :: "app_group_permission list"
  appsRepository :: "app list"
  outbox :: "mail list"

text \<open>
  Every \<^verbatim>\<open>throw\<close> and every dereference of an \<^verbatim>\<open>undefined\<close> lookup result is a value.
  The first three are the HTTP exceptions the services raise themselves; \<open>TypeError\<close>
  is JavaScript's error on reading a property of \<^verbatim>\<open>undefined\<close> and \<open>OrmError\<close> an error
  raised inside the ORM. An operation returns its outcome together with the state it
  leaves behind.
\<close>

datatype error =
    UnauthorizedException string
  | BadRequestException string
  | NotFoundException string
  | TypeError string
  | OrmError string

type_synonym 'a result = "(error + 'a) \<times> world"

text \<open>The two error kinds the services designate for their callers (with NotFound).\<close>

fun designated :: "error \<Rightarrow> bool" where
  "designated (UnauthorizedException m) = True"
| "designated (BadRequestException m) = True"
| "designated (NotFoundException m) = True"
| "designated (TypeError m) = False"
| "designated (OrmError m) = False"

text \<open>
  An optional string argument is truthy when it is given and not empty; \<open>js_or\<close> is
  JavaScript's \<^verbatim>\<open>a || b\<close> on two such arguments.
\<close>

definition truthy :: "string option \<Rightarrow> bool" where
  "truthy s = (s \<noteq> None \<and> s \<noteq> Some [])"

definition js_or :: "string option \<Rightarrow> string option \<Rightarrow> string option" where
  "js_or a b = (if truthy a then a else b)"


section \<open>UsersService: lookups\<close>

definition findOne :: "world \<Rightarrow> string \<Rightarrow> user option" where
  "findOne w ident = find (\<lambda>u. user_id u = ident) (usersRepository w)"

text \<open>
  With an organisation, the query joins the user's memberships in that organisation and
  keeps the active ones.
\<close>

definition findByEmail :: "world \<Rightarrow> string \<Rightarrow> string option \<Rightarrow> user option" where
  "findByEmail w email organisationId =
     (if \<not> truthy organisationId
      then find (\<lambda>u. user_email u = email) (usersRepository w)
      else find (\<lambda>u.
             list_ex (\<lambda>ou. ou_userId ou = user_id u
                          \<and> Some (ou_organizationId ou) = organisationId
                          \<and> ou_status ou = ''active'')
               (organizationUsersRepository w)
             \<and> user_email u = email)
           (usersRepository w))"

definition findByPasswordResetToken :: "world \<Rightarrow> string \<Rightarrow> user option" where
  "findByPasswordResetToken w token =
     find (\<lambda>u. user_forgotPasswordToken u = Some token) (usersRepository w)"

text \<open>
  \<^verbatim>\<open>status\<close> reads the first membership of the user, whatever its organisation, and
  dereferences it without a check.
\<close>

definition status :: "world \<Rightarrow> user \<Rightarrow> error + string" where
  "status w user =
     (case find (\<lambda>ou. ou_userId ou = user_id user) (organizationUsersRepository w) of
        None \<Rightarrow> Inl (TypeError ''Cannot read property status of undefined'')
      | Some orgUser \<Rightarrow> Inr (ou_status orgUser))"

definition userGroupPermissions ::
    "world \<Rightarrow> user \<Rightarrow> string option \<Rightarrow> user_group_permission list" where
  "userGroupPermissions w user organizationId =
     (let orgId = js_or organizationId (user_organizationId user)
      in filter (\<lambda>ugp.
           list_ex (\<lambda>gp. gp_id gp = ugp_groupPermissionId ugp
                        \<and> Some (gp_organizationId gp) = orgId)
             (groupPermissionRepository w)
           \<and> ugp_userId ugp = user_id user)
         (userGroupPermissionRepository w))"

definition groupPermissions ::
    "world \<Rightarrow> user \<Rightarrow> string option \<Rightarrow> group_permission list" where
  "groupPermissions w user organizationId =
     (let orgUserGroupPermissions = userGroupPermissions w user organizationId;
          groupIds = map ugp_groupPermissionId orgUserGroupPermissions
      in filter (\<lambda>gp. gp_id gp \<in> set groupIds) (groupPermissionRepository w))"

definition groupPermissionsForOrganization ::
    "world \<Rightarrow> string option \<Rightarrow> group_permission list" where
  "groupPermissionsForOrganization w organizationId =
     filter (\<lambda>gp. Some (gp_organizationId gp) = organizationId) (groupPermissionRepository w)"

definition appGroupPermissions ::
    "world \<Rightarrow> user \<Rightarrow> string option \<Rightarrow> string option \<Rightarrow> app_group_permission list" where
  "appGroupPermissions w user appId organizationId =
     (let orgUserGroupPermissions = userGroupPermissions w user organizationId;
          groupIds = map ugp_groupPermissionId orgUserGroupPermissions
      in if truthy appId
         then filter (\<lambda>p. agp_groupPermissionId p \<in> set groupIds \<and> Some (agp_appId p) = appId)
                (appGroupPermissionRepository w)
         else filter (\<lambda>p. agp_groupPermissionId p \<in> set groupIds)
                (appGroupPermissionRepository w))"

definition hasGroup :: "world \<Rightarrow> user \<Rightarrow> string \<Rightarrow> string option \<Rightarrow> bool" where
  "hasGroup w user grp organizationId =
     (let orgId = js_or organizationId (user_organizationId user);
          result = length (filter (\<lambda>gp.
                     Some (gp_organizationId gp) = orgId
                     \<and> gp_group gp = grp
                     \<and> list_ex (\<lambda>ugp. ugp_groupPermissionId ugp = gp_id gp
                                     \<and> ugp_userId ugp = user_id user)
                         (userGroupPermissionRepository w))
                   (groupPermissionRepository w))
      in result > 0)"


section \<open>UsersService: the authorization decision\<close>

text \<open>
  \<^verbatim>\<open>p[action]\<close> reads a capability flag by its name. The callers pass the three flag
  names of a group permission and the three of an app group permission only; any other
  name is no flag of the row.
\<close>

definition gp_prop :: "string \<Rightarrow> group_permission \<Rightarrow> bool" where
  "gp_prop action p =
     (if action = ''appCreate'' then gp_appCreate p
      else if action = ''appDelete'' then gp_appDelete p
      else if action = ''folderCreate'' then gp_folderCreate p
      else False)"

definition agp_prop :: "string \<Rightarrow> app_group_permission \<Rightarrow> bool" where
  "agp_prop action p =
     (if action = ''read'' then agp_read p
      else if action = ''update'' then agp_update p
      else if action = ''delete'' then agp_delete p
      else False)"

definition canAnyGroupPerformAction :: "(string \<Rightarrow> 'p \<Rightarrow> bool) \<Rightarrow> string \<Rightarrow> 'p list \<Rightarrow> bool" where
  "canAnyGroupPerformAction prop action permissions = list_ex (prop action) permissions"

definition isUserOwnerOfApp :: "world \<Rightarrow> user \<Rightarrow> string option \<Rightarrow> bool" where
  "isUserOwnerOfApp w user appId =
     (find (\<lambda>a. Some (app_id a) = appId \<and> app_userId a = user_id user) (appsRepository w)
        \<noteq> None)"

definition canUserPerformActionOnApp :: "world \<Rightarrow> user \<Rightarrow> string \<Rightarrow> string option \<Rightarrow> bool" where
  "canUserPerformActionOnApp w user action appId =
     (if action = ''create''
      then canAnyGroupPerformAction gp_prop ''appCreate'' (groupPermissions w user None)
      else if action = ''read'' \<or> action = ''update''
      then canAnyGroupPerformAction agp_prop action (appGroupPermissions w user appId None)
           \<or> isUserOwnerOfApp w user appId
      else if action = ''delete''
      then canAnyGroupPerformAction agp_prop ''delete'' (appGroupPermissions w user appId None)
           \<or> canAnyGroupPerformAction gp_prop ''appDelete'' (groupPermissions w user None)
           \<or> isUserOwnerOfApp w user appId
      else False)"

definition canUserPerformActionOnFolder :: "world \<Rightarrow> user \<Rightarrow> string \<Rightarrow> string option \<Rightarrow> bool" where
  "canUserPerformActionOnFolder w user action folderId =
     (if action = ''create''
      then canAnyGroupPerformAction gp_prop ''folderCreate'' (groupPermissions w user None)
      else False)"

definition userCan :: "world \<Rightarrow> user \<Rightarrow> string \<Rightarrow> string \<Rightarrow> string option \<Rightarrow> bool" where
  "userCan w user action entityName resourceId =
     (if entityName = ''App'' then canUserPerformActionOnApp w user action resourceId
      else if entityName = ''User'' then hasGroup w user ''admin'' None
      else if entityName = ''Thread'' \<or> entityName = ''Comment''
      then canUserPerformActionOnApp w user ''update'' resourceId
      else if entityName = ''Folder'' then canUserPerformActionOnFolder w user action resourceId
      else False)"


section \<open>UsersService: group membership changes\<close>

text \<open>
  The query of \<^verbatim>\<open>throwErrorIfRemovingLastActiveAdmin\<close>: the users, joined with their
  group permissions and with their memberships, that hold the group \<^verbatim>\<open>admin\<close> of the
  organisation of \<open>user\<close> and have a membership row of another user id that is active.
  The join with the memberships carries no condition on the organisation.
\<close>

definition lastActiveAdminQuery :: "world \<Rightarrow> user \<Rightarrow> user list" where
  "lastActiveAdminQuery w user =
     filter (\<lambda>u.
        list_ex (\<lambda>gp.
           list_ex (\<lambda>ugp. ugp_userId ugp = user_id u \<and> ugp_groupPermissionId ugp = gp_id gp)
             (userGroupPermissionRepository w)
           \<and> gp_group gp = ''admin''
           \<and> Some (gp_organizationId gp) = user_organizationId user)
          (groupPermissionRepository w)
        \<and> list_ex (\<lambda>ou. ou_userId ou = user_id u
                       \<and> ou_userId ou \<noteq> user_id user
                       \<and> ou_status ou = ''active'')
            (organizationUsersRepository w))
       (usersRepository w)"

definition throwErrorIfRemovingLastActiveAdmin ::
    "world \<Rightarrow> user \<Rightarrow> string list option \<Rightarrow> error + unit" where
  "throwErrorIfRemovingLastActiveAdmin w user removeGroupsArg =
     (let removeGroups = (case removeGroupsArg of None \<Rightarrow> [''admin''] | Some gs \<Rightarrow> gs);
          removingAdmin = (''admin'' \<in> set removeGroups)
      in if \<not> removingAdmin then Inr ()
         else (let result = length (lastActiveAdminQuery w user)
               in if result = 0
                  then Inl (BadRequestException ''Atleast one active admin is required.'')
                  else Inr ()))"

definition removeUserGroupPermissionsIfExists ::
    "user \<Rightarrow> string list option \<Rightarrow> world \<Rightarrow> unit result" where
  "removeUserGroupPermissionsIfExists user removeGroupsArg w =
     (case removeGroupsArg of
        None \<Rightarrow> (Inr (), w)
      | Some removeGroups \<Rightarrow>
          (case throwErrorIfRemovingLastActiveAdmin w user (Some removeGroups) of
             Inl e \<Rightarrow> (Inl e, w)
           | Inr _ \<Rightarrow>
               if ''all_users'' \<in> set removeGroups
               then (Inl (BadRequestException ''Cannot remove user from default group.''), w)
               else
                 (let groupPermissions =
                        filter (\<lambda>gp. gp_group gp \<in> set removeGroups
                                     \<and> Some (gp_organizationId gp) = user_organizationId user)
                          (groupPermissionRepository w);
                      groupIdsToMaybeRemove = map gp_id groupPermissions
                  in (Inr (),
                      w\<lparr>userGroupPermissionRepository :=
                          filter (\<lambda>ugp. \<not> (ugp_groupPermissionId ugp \<in> set groupIdsToMaybeRemove
                                           \<and> ugp_userId ugp = user_id user))
                            (userGroupPermissionRepository w)\<rparr>))))"

text \<open>The loop of \<^verbatim>\<open>addUserGroupPermissions\<close>: it stops at the first unknown group.\<close>

fun addGroupsLoop :: "group_permission list \<Rightarrow> user \<Rightarrow> string list \<Rightarrow> world \<Rightarrow> unit result" where
  "addGroupsLoop orgGroupPermissions user [] w = (Inr (), w)"
| "addGroupsLoop orgGroupPermissions user (grp # rest) w =
     (case find (\<lambda>permission. gp_group permission = grp) orgGroupPermissions of
        Some orgGroupPermission \<Rightarrow>
          addGroupsLoop orgGroupPermissions user rest
            (w\<lparr>userGroupPermissionRepository :=
                 userGroupPermissionRepository w @
                   [\<lparr>ugp_userId = user_id user,
                     ugp_groupPermissionId = gp_id orgGroupPermission\<rparr>]\<rparr>)
      | None \<Rightarrow>
          (Inl (BadRequestException (grp @ '' group does not exist for current organization'')), w))"

definition addUserGroupPermissions ::
    "user \<Rightarrow> string list option \<Rightarrow> world \<Rightarrow> unit result" where
  "addUserGroupPermissions user addGroupsArg w =
     (case addGroupsArg of
        None \<Rightarrow> (Inr (), w)
      | Some addGroups \<Rightarrow>
          addGroupsLoop (groupPermissionsForOrganization w (user_organizationId user))
            user addGroups w)"


section \<open>UsersService: create, update and account setup\<close>

text \<open>
  What the process environment and the password hasher give: the variable
  \<^verbatim>\<open>DISABLE_SIGNUPS\<close> (\<open>None\<close> when it is not set), \<^verbatim>\<open>bcrypt.hashSync\<close> and
  \<^verbatim>\<open>bcrypt.compare\<close>. The hasher is an external library and stays a parameter.
\<close>

record env =
  DISABLE_SIGNUPS :: "string option"
  bcrypt_hashSync :: "string \<Rightarrow> string"
  bcrypt_compare :: "string \<Rightarrow> string \<Rightarrow> bool"

text \<open>
  The values a run draws from outside when it creates a user: the primary key the
  store assigns, the \<^verbatim>\<open>uuid.v4()\<close> that becomes the password, and the invitation token
  a new row carries (\<^verbatim>\<open>create\<close> does not set it, \<^verbatim>\<open>signup\<close> reads it back).
\<close>

record fresh =
  fresh_id :: string
  fresh_uuid :: string
  fresh_invitationToken :: "string option"

record user_params =
  p_email :: string
  p_firstName :: "string option"
  p_lastName :: "string option"

text \<open>An operation after another, on the state the first one leaves; an error stops.\<close>

definition andThen :: "'a result \<Rightarrow> ('a \<Rightarrow> world \<Rightarrow> 'b result) \<Rightarrow> 'b result" where
  "andThen r f = (case r of (Inl e, w) \<Rightarrow> (Inl e, w) | (Inr x, w) \<Rightarrow> f x w)"

fun createGroupsLoop :: "string \<Rightarrow> user \<Rightarrow> string list \<Rightarrow> world \<Rightarrow> unit result" where
  "createGroupsLoop organizationId user [] w = (Inr (), w)"
| "createGroupsLoop organizationId user (grp # rest) w =
     (case find (\<lambda>gp. gp_organizationId gp = organizationId \<and> gp_group gp = grp)
             (groupPermissionRepository w) of
        Some orgGroupPermission \<Rightarrow>
          createGroupsLoop organizationId user rest
            (w\<lparr>userGroupPermissionRepository :=
                 userGroupPermissionRepository w @
                   [\<lparr>ugp_userId = user_id user,
                     ugp_groupPermissionId = gp_id orgGroupPermission\<rparr>]\<rparr>)
      | None \<Rightarrow>
          (Inl (BadRequestException (grp @ '' group does not exist for current organization'')), w))"

text \<open>
  \<^verbatim>\<open>create\<close> runs in a transaction of its own: an error inside leaves the state as it
  was. Iterating over \<^verbatim>\<open>groups\<close> when the argument is left out is a TypeError.
\<close>

definition create ::
    "user_params \<Rightarrow> string \<Rightarrow> string list option \<Rightarrow> fresh \<Rightarrow> world \<Rightarrow> user result" where
  "create userParams organizationId groups fr w =
     (let password = fresh_uuid fr;
          user = \<lparr>user_id = fresh_id fr,
                  user_email = p_email userParams,
                  user_firstName = p_firstName userParams,
                  user_lastName = p_lastName userParams,
                  user_password = password,
                  user_role = None,
                  user_defaultOrganizationId = organizationId,
                  user_invitationToken = fresh_invitationToken fr,
                  user_forgotPasswordToken = None,
                  user_organizationId = None\<rparr>;
          w1 = w\<lparr>usersRepository := usersRepository w @ [user]\<rparr>
      in case groups of
           None \<Rightarrow> (Inl (TypeError ''groups is not iterable''), w)
         | Some gs \<Rightarrow>
             (case createGroupsLoop organizationId user gs w1 of
                (Inl e, w2) \<Rightarrow> (Inl e, w)
              | (Inr u, w2) \<Rightarrow> (Inr user, w2)))"

definition findOrCreateByEmail ::
    "user_params \<Rightarrow> string \<Rightarrow> fresh \<Rightarrow> world \<Rightarrow> (user \<times> bool) result" where
  "findOrCreateByEmail userParams organizationId fr w =
     (case findByEmail w (p_email userParams) None of
        Some user \<Rightarrow> (Inr (user, False), w)
      | None \<Rightarrow>
          andThen (create userParams organizationId (Some [''all_users'']) fr w)
            (\<lambda>user w1. (Inr (user, True), w1)))"

text \<open>
  \<^verbatim>\<open>save\<close> writes the entity over the row with its primary key, or inserts it when
  there is none.
\<close>

definition save :: "('r \<Rightarrow> string) \<Rightarrow> 'r \<Rightarrow> 'r list \<Rightarrow> 'r list" where
  "save key x rows =
     (if list_ex (\<lambda>r. key r = key x) rows
      then map (\<lambda>r. if key r = key x then x else r) rows
      else rows @ [x])"

text \<open>
  The parameters of \<^verbatim>\<open>setupAccountFromInvitationToken\<close>; \<open>None\<close> is a key left out.
  \<^verbatim>\<open>Object.assign\<close> with an \<^verbatim>\<open>undefined\<close> value followed by \<^verbatim>\<open>save\<close> leaves the column
  as it is.
\<close>

record setup_params =
  sp_organization :: "string option"
  sp_password :: "string option"
  sp_token :: string
  sp_role :: "string option"
  sp_first_name :: "string option"
  sp_last_name :: "string option"
  sp_new_signup :: bool

definition assignUser :: "user \<Rightarrow> setup_params \<Rightarrow> user" where
  "assignUser user params =
     user\<lparr>user_firstName := (case sp_first_name params of None \<Rightarrow> user_firstName user
                               | Some v \<Rightarrow> Some v),
          user_lastName := (case sp_last_name params of None \<Rightarrow> user_lastName user
                              | Some v \<Rightarrow> Some v),
          user_password := (case sp_password params of None \<Rightarrow> user_password user
                              | Some v \<Rightarrow> v),
          user_role := (case sp_role params of None \<Rightarrow> user_role user | Some v \<Rightarrow> Some v),
          user_invitationToken := None\<rparr>"

text \<open>
  The first half of \<^verbatim>\<open>setupAccountFromInvitationToken\<close>: the user and the membership
  the token resolves to. \<^verbatim>\<open>user.organizationUsers\<close> is the relation of the loaded user,
  its membership rows; \<^verbatim>\<open>organizationUser.user\<close> is the user row of the membership.
\<close>

definition resolveInvitation ::
    "world \<Rightarrow> setup_params \<Rightarrow> error + (user \<times> organization_user)" where
  "resolveInvitation w params =
     (if sp_new_signup params
      then (case find (\<lambda>u. user_invitationToken u = Some (sp_token params)) (usersRepository w) of
              None \<Rightarrow> Inl (BadRequestException ''Invalid invitation link'')
            | Some user \<Rightarrow>
                (case find (\<lambda>ou. ou_organizationId ou = user_defaultOrganizationId user)
                        (filter (\<lambda>ou. ou_userId ou = user_id user)
                           (organizationUsersRepository w)) of
                   None \<Rightarrow> Inl (BadRequestException ''Invalid invitation link'')
                 | Some organizationUser \<Rightarrow> Inr (user, organizationUser)))
      else (case find (\<lambda>ou. ou_invitationToken ou = Some (sp_token params))
                   (organizationUsersRepository w) of
              None \<Rightarrow> Inl (BadRequestException ''Invalid invitation link'')
            | Some organizationUser \<Rightarrow>
                (case find (\<lambda>u. user_id u = ou_userId organizationUser) (usersRepository w) of
                   None \<Rightarrow> Inl (BadRequestException ''Invalid invitation link'')
                 | Some user \<Rightarrow> Inr (user, organizationUser))))"

text \<open>
  \<^verbatim>\<open>organizationsRepository.update(criteria, {name})\<close>: the ORM rejects an empty
  criterion (\<^verbatim>\<open>undefined\<close>, \<^verbatim>\<open>null\<close> or the empty string) and otherwise renames the rows
  with that id.
\<close>

definition organizationsRepository_updateName ::
    "string option \<Rightarrow> string \<Rightarrow> world \<Rightarrow> unit result" where
  "organizationsRepository_updateName criteria name w =
     (if \<not> truthy criteria
      then (Inl (OrmError ''Empty criteria(s) are not allowed for the update method.''), w)
      else (Inr (),
            w\<lparr>organizationsRepository :=
                map (\<lambda>organization. if Some (org_id organization) = criteria
                                     then organization\<lparr>org_name := name\<rparr> else organization)
                  (organizationsRepository w)\<rparr>))"

text \<open>
  The two saves are not in a transaction: an error of the last step leaves them
  written.
\<close>

definition setupAccountFromInvitationToken :: "setup_params \<Rightarrow> world \<Rightarrow> unit result" where
  "setupAccountFromInvitationToken params w =
     (case resolveInvitation w params of
        Inl e \<Rightarrow> (Inl e, w)
      | Inr (user0, organizationUser) \<Rightarrow>
          (let user = assignUser user0 params;
               w1 = w\<lparr>usersRepository := save user_id user (usersRepository w)\<rparr>;
               w2 = w1\<lparr>organizationUsersRepository :=
                         save ou_id
                           (organizationUser\<lparr>ou_invitationToken := None, ou_status := ''active''\<rparr>)
                           (organizationUsersRepository w1)\<rparr>
           in if sp_new_signup params \<and> truthy (sp_organization params)
              then (case sp_organization params of
                      None \<Rightarrow> (Inr (), w2)
                    | Some organization \<Rightarrow>
                        organizationsRepository_updateName (user_organizationId user) organization w2)
              else (Inr (), w2)))"

text \<open>
  The parameters of \<^verbatim>\<open>update\<close>. The reset token is written as \<^verbatim>\<open>null\<close> by
  \<^verbatim>\<open>resetPassword\<close>, so it has three states; the other keys are given or left out.
\<close>

datatype 'a js = Undefined | Null | Value 'a

record update_params =
  up_forgotPasswordToken :: "string js"
  up_password :: "string option"
  up_firstName :: "string option"
  up_lastName :: "string option"
  up_addGroups :: "string list option"
  up_removeGroups :: "string list option"

text \<open>
  \<^verbatim>\<open>manager.update(User, userId, {...updateableParams})\<close> after \<^verbatim>\<open>cleanObject\<close> has
  removed the keys with undefined values: the columns whose key is left are written.
  \<^verbatim>\<open>cleanObject\<close> is a helper outside the sources at hand; what it does is taken from
  the comment at its call, so a key whose value is \<^verbatim>\<open>null\<close> stays.
\<close>

definition applyUpdateableParams ::
    "string js \<Rightarrow> string option \<Rightarrow> string option \<Rightarrow> string option \<Rightarrow> user \<Rightarrow> user" where
  "applyUpdateableParams forgotPasswordToken firstName lastName hashedPassword u =
     u\<lparr>user_forgotPasswordToken :=
         (case forgotPasswordToken of Undefined \<Rightarrow> user_forgotPasswordToken u
          | Null \<Rightarrow> None | Value t \<Rightarrow> Some t),
       user_firstName := (case firstName of None \<Rightarrow> user_firstName u | Some v \<Rightarrow> Some v),
       user_lastName := (case lastName of None \<Rightarrow> user_lastName u | Some v \<Rightarrow> Some v),
       user_password := (case hashedPassword of None \<Rightarrow> user_password u | Some h \<Rightarrow> h)\<rparr>"

text \<open>
  When \<^verbatim>\<open>findOne\<close> finds no user after the update, the two group operations run on
  \<^verbatim>\<open>undefined\<close>: they return when their list is left out and fail at the first read of
  \<^verbatim>\<open>user.id\<close> or \<^verbatim>\<open>user.organizationId\<close> otherwise, the check for \<^verbatim>\<open>all_users\<close> coming
  before the read when \<^verbatim>\<open>admin\<close> is not removed.
\<close>

definition groupChangesOnUndefinedUser ::
    "string list option \<Rightarrow> string list option \<Rightarrow> error + unit" where
  "groupChangesOnUndefinedUser removeGroupsArg addGroupsArg =
     (case removeGroupsArg of
        Some removeGroups \<Rightarrow>
          if ''admin'' \<in> set removeGroups
          then Inl (TypeError ''Cannot read property id of undefined'')
          else if ''all_users'' \<in> set removeGroups
          then Inl (BadRequestException ''Cannot remove user from default group.'')
          else Inl (TypeError ''Cannot read property organizationId of undefined'')
      | None \<Rightarrow>
          (case addGroupsArg of
             Some addGroups \<Rightarrow> Inl (TypeError ''Cannot read property organizationId of undefined'')
           | None \<Rightarrow> Inr ()))"

text \<open>
  The body of the transaction. \<^verbatim>\<open>bcrypt.hashSync\<close> is called for a truthy password
  only, so the empty string counts as a password that was not given. The ORM refuses an
  update that sets no column at all.
\<close>

definition performUpdateInTransaction ::
    "env \<Rightarrow> string \<Rightarrow> update_params \<Rightarrow> world \<Rightarrow> user option result" where
  "performUpdateInTransaction e userId params w =
     (let hashedPassword =
            (case up_password params of
               None \<Rightarrow> None
             | Some password \<Rightarrow>
                 if password = [] then None else Some (bcrypt_hashSync e password))
      in if up_forgotPasswordToken params = Undefined \<and> up_firstName params = None
            \<and> up_lastName params = None \<and> hashedPassword = None
         then (Inl (OrmError ''UpdateValuesMissingError''), w)
         else
           (let w1 = w\<lparr>usersRepository :=
                        map (\<lambda>u. if user_id u = userId
                                  then applyUpdateableParams (up_forgotPasswordToken params)
                                         (up_firstName params) (up_lastName params)
                                         hashedPassword u
                                  else u)
                          (usersRepository w)\<rparr>
            in case findOne w1 userId of
                 None \<Rightarrow>
                   (case groupChangesOnUndefinedUser (up_removeGroups params)
                           (up_addGroups params) of
                      Inl err \<Rightarrow> (Inl err, w1)
                    | Inr u \<Rightarrow> (Inr None, w1))
               | Some user \<Rightarrow>
                   andThen (removeUserGroupPermissionsIfExists user (up_removeGroups params) w1)
                     (\<lambda>u w2. andThen (addUserGroupPermissions user (up_addGroups params) w2)
                        (\<lambda>u w3. (Inr (Some user), w3)))))"

text \<open>
  With a manager of the caller the writes go to the caller's transaction; without one
  \<^verbatim>\<open>update\<close> opens its own, and an error inside rolls it back.
\<close>

definition update ::
    "env \<Rightarrow> string \<Rightarrow> update_params \<Rightarrow> bool \<Rightarrow> world \<Rightarrow> user option result" where
  "update e userId params manager w =
     (case performUpdateInTransaction e userId params w of
        (Inl err, w1) \<Rightarrow> (Inl err, if manager then w1 else w)
      | (Inr user, w1) \<Rightarrow> (Inr user, w1))"


section \<open>AuthService\<close>

text \<open>
  The token signer is an external library. A signed token is the payload under a
  constructor: \<^verbatim>\<open>verify\<close> gives back exactly what \<^verbatim>\<open>sign\<close> was given, and fails on
  anything else.
\<close>

record jwt_payload =
  jp_username :: string
  jp_sub :: string
  jp_organizationId :: "string option"

datatype jwt = Signed jwt_payload | Malformed string

definition jwtService_sign :: "jwt_payload \<Rightarrow> jwt" where
  "jwtService_sign payload = Signed payload"

definition jwtService_verify :: "jwt \<Rightarrow> jwt_payload option" where
  "jwtService_verify token = (case token of Signed payload \<Rightarrow> Some payload | Malformed s \<Rightarrow> None)"

definition verifyToken :: "jwt \<Rightarrow> jwt_payload option" where
  "verifyToken token =
     (case jwtService_verify token of Some signedJwt \<Rightarrow> Some signedJwt | None \<Rightarrow> None)"

text \<open>
  The services the authentication service is given and whose code is not part of the
  sources at hand. Each is a parameter: the organisation lookup, which may find nothing,
  and the three writers, which act on the state and may fail.
\<close>

record services =
  organizationsService_get :: "string option \<Rightarrow> world \<Rightarrow> organization option"
  organizationsService_create :: "string \<Rightarrow> world \<Rightarrow> organization result"
  organizationUsersService_create :: "user \<Rightarrow> organization \<Rightarrow> world \<Rightarrow> unit result"
  emailService_sendWelcomeEmail ::
    "string \<Rightarrow> string option \<Rightarrow> string option \<Rightarrow> world \<Rightarrow> unit result"
  emailService_sendPasswordResetEmail :: "string \<Rightarrow> string \<Rightarrow> world \<Rightarrow> unit result"

definition validateUser :: "env \<Rightarrow> world \<Rightarrow> string \<Rightarrow> string \<Rightarrow> string option \<Rightarrow> user option" where
  "validateUser e w email password organisationId =
     (case findByEmail w email organisationId of
        None \<Rightarrow> None
      | Some user \<Rightarrow> if bcrypt_compare e password (user_password user) then Some user else None)"

record login_params =
  lp_email :: string
  lp_password :: string
  lp_organizationId :: "string option"

text \<open>The response of \<^verbatim>\<open>login\<close> and \<^verbatim>\<open>switchOrganization\<close>, its keys in snake case.\<close>

record login_response =
  r_id :: string
  r_auth_token :: jwt
  r_email :: string
  r_first_name :: "string option"
  r_last_name :: "string option"
  r_organization_id :: "string option"
  r_organization :: string
  r_admin :: bool
  r_group_permissions :: "group_permission list"
  r_app_group_permissions :: "app_group_permission list"

definition sessionResponse ::
    "world \<Rightarrow> user \<Rightarrow> jwt_payload \<Rightarrow> organization \<Rightarrow> login_response" where
  "sessionResponse w user payload organization =
     \<lparr>r_id = user_id user,
      r_auth_token = jwtService_sign payload,
      r_email = user_email user,
      r_first_name = user_firstName user,
      r_last_name = user_lastName user,
      r_organization_id = user_organizationId user,
      r_organization = org_name organization,
      r_admin = hasGroup w user ''admin'' None,
      r_group_permissions = groupPermissions w user None,
      r_app_group_permissions = appGroupPermissions w user None None\<rparr>"

definition login :: "env \<Rightarrow> services \<Rightarrow> login_params \<Rightarrow> world \<Rightarrow> login_response result" where
  "login e sv params w =
     (let email = lp_email params;
          password = lp_password params;
          organizationId = lp_organizationId params
      in case validateUser e w email password organizationId of
           None \<Rightarrow> (Inl (UnauthorizedException ''Invalid credentials''), w)
         | Some user0 \<Rightarrow>
             (case status w user0 of
                Inl err \<Rightarrow> (Inl err, w)
              | Inr st \<Rightarrow>
                  if st \<noteq> ''archived''
                  then
                    (let user = user0\<lparr>user_organizationId :=
                                        js_or organizationId
                                          (Some (user_defaultOrganizationId user0))\<rparr>
                     in case organizationsService_get sv (user_organizationId user) w of
                          None \<Rightarrow> (Inl (TypeError ''Cannot read property name of undefined''), w)
                        | Some organization \<Rightarrow>
                            (let payload = \<lparr>jp_username = user_id user,
                                            jp_sub = user_email user,
                                            jp_organizationId = user_organizationId user\<rparr>
                             in (Inr (sessionResponse w user payload organization), w)))
                  else (Inl (UnauthorizedException ''Invalid credentials''), w)))"

definition switchOrganization ::
    "services \<Rightarrow> string \<Rightarrow> user \<Rightarrow> world \<Rightarrow> login_response result" where
  "switchOrganization sv newOrganizationId user w =
     (case findByEmail w (user_email user) (Some newOrganizationId) of
        None \<Rightarrow> (Inl (UnauthorizedException ''Invalid credentials''), w)
      | Some newUser0 \<Rightarrow>
          (case status w newUser0 of
             Inl err \<Rightarrow> (Inl err, w)
           | Inr st \<Rightarrow>
               if st \<noteq> ''archived''
               then
                 (let newUser = newUser0\<lparr>user_organizationId := Some newOrganizationId\<rparr>
                  in case organizationsService_get sv (user_organizationId newUser) w of
                       None \<Rightarrow> (Inl (TypeError ''Cannot read property name of undefined''), w)
                     | Some organization \<Rightarrow>
                         (let payload = \<lparr>jp_username = user_id user,
                                         jp_sub = user_email user,
                                         jp_organizationId = user_organizationId newUser\<rparr>
                          in (Inr (sessionResponse w newUser payload organization), w)))
               else (Inl (UnauthorizedException ''Invalid credentials''), w)))"

text \<open>\<^verbatim>\<open>signup\<close> returns the empty object in both of its branches.\<close>

definition signup :: "env \<Rightarrow> services \<Rightarrow> string \<Rightarrow> fresh \<Rightarrow> world \<Rightarrow> unit result" where
  "signup e sv email fr w =
     (if DISABLE_SIGNUPS e = Some ''true''
      then (Inr (), w)
      else
        andThen (organizationsService_create sv ''Untitled organization'' w)
          (\<lambda>organization w1.
             andThen (create \<lparr>p_email = email, p_firstName = None, p_lastName = None\<rparr>
                        (org_id organization) (Some [''all_users'', ''admin'']) fr w1)
               (\<lambda>user w2.
                  andThen (organizationUsersService_create sv user organization w2)
                    (\<lambda>u w3.
                       andThen (emailService_sendWelcomeEmail sv (user_email user)
                                  (user_firstName user) (user_invitationToken user) w3)
                         (\<lambda>u w4. (Inr (), w4))))))"

text \<open>
  \<^verbatim>\<open>forgotPassword\<close> reads \<^verbatim>\<open>user.id\<close> of the lookup result without a check; the token
  is the \<^verbatim>\<open>uuid.v4()\<close> drawn before.
\<close>

definition forgotPassword :: "env \<Rightarrow> services \<Rightarrow> string \<Rightarrow> string \<Rightarrow> world \<Rightarrow> unit result" where
  "forgotPassword e sv email forgotPasswordToken w =
     (case findByEmail w email None of
        None \<Rightarrow> (Inl (TypeError ''Cannot read property id of undefined''), w)
      | Some user \<Rightarrow>
          andThen (update e (user_id user)
                     \<lparr>up_forgotPasswordToken = Value forgotPasswordToken, up_password = None,
                      up_firstName = None, up_lastName = None,
                      up_addGroups = None, up_removeGroups = None\<rparr> False w)
            (\<lambda>u w1. emailService_sendPasswordResetEmail sv email forgotPasswordToken w1))"

definition resetPassword :: "env \<Rightarrow> string \<Rightarrow> string \<Rightarrow> world \<Rightarrow> unit result" where
  "resetPassword e token password w =
     (case findByPasswordResetToken w token of
        None \<Rightarrow> (Inl (NotFoundException ''Invalid token''), w)
      | Some user \<Rightarrow>
          andThen (update e (user_id user)
                     \<lparr>up_forgotPasswordToken = Null, up_password = Some password,
                      up_firstName = None, up_lastName = None,
                      up_addGroups = None, up_removeGroups = None\<rparr> False w)
            (\<lambda>u w1. (Inr (), w1)))"


section \<open>The rule of the specification for removing the admin group\<close>

text \<open>
  The specification counts, before \<^verbatim>\<open>admin\<close> is removed from a user, the other active
  members of the user's organisation that hold the group \<^verbatim>\<open>admin\<close>: the users with
  another id that have an active membership in that organisation and a membership in
  the \<^verbatim>\<open>admin\<close> group of that organisation. This definition follows those words; the
  query of the code is \<open>lastActiveAdminQuery\<close>.
\<close>

definition otherActiveAdminsOfOrganization :: "world \<Rightarrow> user \<Rightarrow> user list" where
  "otherActiveAdminsOfOrganization w user =
     filter (\<lambda>u.
        user_id u \<noteq> user_id user
        \<and> list_ex (\<lambda>ou. ou_userId ou = user_id u
                       \<and> Some (ou_organizationId ou) = user_organizationId user
                       \<and> ou_status ou = ''active'')
            (organizationUsersRepository w)
        \<and> list_ex (\<lambda>gp.
             gp_group gp = ''admin''
             \<and> Some (gp_organizationId gp) = user_organizationId user
             \<and> list_ex (\<lambda>ugp. ugp_userId ugp = user_id u \<and> ugp_groupPermissionId ugp = gp_id gp)
                 (userGroupPermissionRepository w))
            (groupPermissionRepository w))
       (usersRepository w)"


text \<open>
  The invariant of the specification is about the active members of an organisation
  that hold its \<^verbatim>\<open>admin\<close> group, the user being modified included.
\<close>

definition activeAdminsOfOrganization :: "world \<Rightarrow> string option \<Rightarrow> user list" where
  "activeAdminsOfOrganization w organizationId =
     filter (\<lambda>u.
        list_ex (\<lambda>ou. ou_userId ou = user_id u
                     \<and> Some (ou_organizationId ou) = organizationId
                     \<and> ou_status ou = ''active'')
          (organizationUsersRepository w)
        \<and> list_ex (\<lambda>gp.
             gp_group gp = ''admin''
             \<and> Some (gp_organizationId gp) = organizationId
             \<and> list_ex (\<lambda>ugp. ugp_userId ugp = user_id u \<and> ugp_groupPermissionId ugp = gp_id gp)
                 (userGroupPermissionRepository w))
            (groupPermissionRepository w))
       (usersRepository w)"


section \<open>A sample store\<close>

text \<open>
  Two organisations. Ada is the active admin of the first and holds a reset token; Bob
  holds the first organisation's admin group too, but his membership there is archived
  and his active membership is in the second organisation, where he belongs to no group.
  Bob owns the only app.
\<close>

definition exampleEnv :: env where
  "exampleEnv = \<lparr>DISABLE_SIGNUPS = None,
                 bcrypt_hashSync = (\<lambda>p. ''$2b$10$'' @ p),
                 bcrypt_compare = (\<lambda>p h. h = ''$2b$10$'' @ p)\<rparr>"

definition adaRow :: user where
  "adaRow = \<lparr>user_id = ''u1'', user_email = ''ada@example.com'',
             user_firstName = Some ''Ada'', user_lastName = Some ''Lovelace'',
             user_password = ''$2b$10$secret'', user_role = None,
             user_defaultOrganizationId = ''o1'', user_invitationToken = None,
             user_forgotPasswordToken = Some ''t1'', user_organizationId = None\<rparr>"

definition bobRow :: user where
  "bobRow = \<lparr>user_id = ''u2'', user_email = ''bob@example.com'',
             user_firstName = Some ''Bob'', user_lastName = None,
             user_password = ''$2b$10$hunter2'', user_role = None,
             user_defaultOrganizationId = ''o2'', user_invitationToken = None,
             user_forgotPasswordToken = None, user_organizationId = None\<rparr>"

text \<open>The two users as a request carries them, with the organisation of the session.\<close>

definition ada :: user where
  "ada = adaRow\<lparr>user_organizationId := Some ''o1''\<rparr>"

definition bob :: user where
  "bob = bobRow\<lparr>user_organizationId := Some ''o2''\<rparr>"

definition adaMembership :: organization_user where
  "adaMembership = \<lparr>ou_id = ''m1'', ou_userId = ''u1'', ou_organizationId = ''o1'',
                    ou_status = ''active'', ou_invitationToken = None\<rparr>"

definition bobArchivedMembership :: organization_user where
  "bobArchivedMembership = \<lparr>ou_id = ''m2'', ou_userId = ''u2'', ou_organizationId = ''o1'',
                            ou_status = ''archived'', ou_invitationToken = None\<rparr>"

definition bobOtherMembership :: organization_user where
  "bobOtherMembership = \<lparr>ou_id = ''m3'', ou_userId = ''u2'', ou_organizationId = ''o2'',
                         ou_status = ''active'', ou_invitationToken = None\<rparr>"

definition exampleWorld :: world where
  "exampleWorld =
     \<lparr>usersRepository = [adaRow, bobRow],
      organizationsRepository = [\<lparr>org_id = ''o1'', org_name = ''Acme''\<rparr>,
                                 \<lparr>org_id = ''o2'', org_name = ''Globex''\<rparr>],
      organizationUsersRepository = [adaMembership, bobArchivedMembership, bobOtherMembership],
      groupPermissionRepository =
        [\<lparr>gp_id = ''g1'', gp_organizationId = ''o1'', gp_group = ''admin'',
          gp_appCreate = True, gp_appDelete = True, gp_folderCreate = True\<rparr>,
         \<lparr>gp_id = ''g2'', gp_organizationId = ''o1'', gp_group = ''all_users'',
          gp_appCreate = False, gp_appDelete = False, gp_folderCreate = False\<rparr>],
      userGroupPermissionRepository =
        [\<lparr>ugp_userId = ''u1'', ugp_groupPermissionId = ''g1''\<rparr>,
         \<lparr>ugp_userId = ''u1'', ugp_groupPermissionId = ''g2''\<rparr>,
         \<lparr>ugp_userId = ''u2'', ugp_groupPermissionId = ''g1''\<rparr>,
         \<lparr>ugp_userId = ''u2'', ugp_groupPermissionId = ''g2''\<rparr>],
      appGroupPermissionRepository = [],
      appsRepository = [\<lparr>app_id = ''a1'', app_userId = ''u2''\<rparr>],
      outbox = []\<rparr>"

text \<open>The same store with Bob active nowhere, and with Bob active in Ada's organisation.\<close>

definition soleAdminWorld :: world where
  "soleAdminWorld =
     exampleWorld\<lparr>organizationUsersRepository := [adaMembership, bobArchivedMembership]\<rparr>"

definition twoAdminsWorld :: world where
  "twoAdminsWorld =
     exampleWorld\<lparr>organizationUsersRepository :=
                    [adaMembership, bobArchivedMembership\<lparr>ou_status := ''active''\<rparr>]\<rparr>"

text \<open>The sample store with Ada's reset token on Bob's row as well.\<close>

definition sharedTokenWorld :: world where
  "sharedTokenWorld =
     exampleWorld\<lparr>usersRepository :=
                    [adaRow, bobRow\<lparr>user_forgotPasswordToken := Some ''t1''\<rparr>]\<rparr>"

text \<open>
  A sample of the services that are parameters: the lookup reads the organisations
  table, creating an organisation adds its row and its two default groups, creating a
  membership adds an invited row, and the mailer appends to the outbox.
\<close>

definition exampleServices :: services where
  "exampleServices =
     \<lparr>organizationsService_get =
        (\<lambda>ident w. find (\<lambda>organization. Some (org_id organization) = ident)
                     (organizationsRepository w)),
      organizationsService_create =
        (\<lambda>name w.
           (Inr \<lparr>org_id = ''o9'', org_name = name\<rparr>,
            w\<lparr>organizationsRepository :=
                 organizationsRepository w @ [\<lparr>org_id = ''o9'', org_name = name\<rparr>],
              groupPermissionRepository :=
                 groupPermissionRepository w @
                   [\<lparr>gp_id = ''g8'', gp_organizationId = ''o9'', gp_group = ''all_users'',
                     gp_appCreate = False, gp_appDelete = False, gp_folderCreate = False\<rparr>,
                    \<lparr>gp_id = ''g9'', gp_organizationId = ''o9'', gp_group = ''admin'',
                     gp_appCreate = True, gp_appDelete = True, gp_folderCreate = True\<rparr>]\<rparr>)),
      organizationUsersService_create =
        (\<lambda>user organization w.
           (Inr (),
            w\<lparr>organizationUsersRepository :=
                 organizationUsersRepository w @
                   [\<lparr>ou_id = ''m9'', ou_userId = user_id user,
                     ou_organizationId = org_id organization, ou_status = ''invited'',
                     ou_invitationToken = None\<rparr>]\<rparr>)),
      emailService_sendWelcomeEmail =
        (\<lambda>email firstName token w.
           (Inr (), w\<lparr>outbox := outbox w @ [WelcomeEmail email firstName token]\<rparr>)),
      emailService_sendPasswordResetEmail =
        (\<lambda>email token w.
           (Inr (), w\<lparr>outbox := outbox w @ [PasswordResetEmail email token]\<rparr>))\<rparr>"

definition adaLogin :: login_params where
  "adaLogin = \<lparr>lp_email = ''ada@example.com'', lp_password = ''secret'',
               lp_organizationId = None\<rparr>"

definition bobLogin :: login_params where
  "bobLogin = \<lparr>lp_email = ''bob@example.com'', lp_password = ''hunter2'',
               lp_organizationId = None\<rparr>"

text \<open>
  A public signup as \<^verbatim>\<open>signup\<close> runs it on the sample store, and the invitation it
  sends answered with an organisation name.
\<close>

definition carolFresh :: fresh where
  "carolFresh = \<lparr>fresh_id = ''u9'', fresh_uuid = ''c0ffee'',
                 fresh_invitationToken = Some ''inv9''\<rparr>"

definition signedUpWorld :: world where
  "signedUpWorld = snd (signup exampleEnv exampleServices ''carol@example.com'' carolFresh exampleWorld)"

definition carolSetup :: setup_params where
  "carolSetup = \<lparr>sp_organization = Some ''Initech'', sp_password = Some ''pw'',
                 sp_token = ''inv9'', sp_role = None, sp_first_name = Some ''Carol'',
                 sp_last_name = None, sp_new_signup = True\<rparr>"


lemmas sample_defs =
  exampleEnv_def adaRow_def bobRow_def ada_def adaMembership_def
  bobArchivedMembership_def bobOtherMembership_def exampleWorld_def exampleServices_def

lemmas lookup_defs =
  truthy_def js_or_def findOne_def findByEmail_def findByPasswordResetToken_def status_def
  userGroupPermissions_def groupPermissions_def groupPermissionsForOrganization_def
  appGroupPermissions_def hasGroup_def


section \<open>Ownership and deny by default\<close>

lemma isUserOwnerOfApp_owner:
  assumes "a \<in> set (appsRepository w)" and "app_userId a = user_id user"
  shows "isUserOwnerOfApp w user (Some (app_id a))"
  using assms by (auto simp: isUserOwnerOfApp_def find_None_iff)

text \<open>
  Claim C1. A user whose id is the owning \<^verbatim>\<open>userId\<close> of an app of the store may read,
  update and delete that app: \<open>userCan\<close> returns true for the three actions on the
  entity \<^verbatim>\<open>App\<close> and the app's id, whatever the group and app group permissions are.
\<close>

theorem owner_can_read_update_delete:
  assumes "a \<in> set (appsRepository w)"
    and "app_userId a = user_id user"
    and "action \<in> {''read'', ''update'', ''delete''}"
  shows "userCan w user action ''App'' (Some (app_id a))"
proof -
  have own: "isUserOwnerOfApp w user (Some (app_id a))"
    using assms(1,2) by (rule isUserOwnerOfApp_owner)
  from assms(3) consider "action = ''read''" | "action = ''update''" | "action = ''delete''"
    by auto
  then show ?thesis
    by cases (simp_all add: userCan_def canUserPerformActionOnApp_def own)
qed

text \<open>
  In the sample store Bob owns the app and no group or app group permission of his
  session grants anything, and each of the three actions is allowed.
\<close>

theorem owner_can_read_update_delete_witness:
  "groupPermissions exampleWorld bob None = []
   \<and> appGroupPermissions exampleWorld bob (Some ''a1'') None = []
   \<and> userCan exampleWorld bob ''read'' ''App'' (Some ''a1'')
   \<and> userCan exampleWorld bob ''update'' ''App'' (Some ''a1'')
   \<and> userCan exampleWorld bob ''delete'' ''App'' (Some ''a1'')"
proof -
  let ?a = "\<lparr>app_id = ''a1'', app_userId = ''u2''\<rparr>"
  have mem: "?a \<in> set (appsRepository exampleWorld)"
    by (simp add: exampleWorld_def)
  have own: "app_userId ?a = user_id bob"
    by (simp add: bob_def bobRow_def)
  have none: "groupPermissions exampleWorld bob None = []"
    "appGroupPermissions exampleWorld bob (Some ''a1'') None = []"
    by (simp_all add: lookup_defs sample_defs bob_def)
  have "userCan exampleWorld bob ''read'' ''App'' (Some (app_id ?a))"
    "userCan exampleWorld bob ''update'' ''App'' (Some (app_id ?a))"
    "userCan exampleWorld bob ''delete'' ''App'' (Some (app_id ?a))"
    by (rule owner_can_read_update_delete [OF mem own], simp)+
  with none show ?thesis by simp
qed

text \<open>
  Claim C7. \<open>userCan\<close> denies by default: it is false for every entity name other than
  \<^verbatim>\<open>App\<close>, \<^verbatim>\<open>User\<close>, \<^verbatim>\<open>Thread\<close>, \<^verbatim>\<open>Comment\<close> and \<^verbatim>\<open>Folder\<close>, for every action on an
  \<^verbatim>\<open>App\<close> other than create, read, update and delete, and for every action on a
  \<^verbatim>\<open>Folder\<close> other than create.
\<close>

theorem userCan_denies_by_default:
  "(entityName \<notin> {''App'', ''User'', ''Thread'', ''Comment'', ''Folder''}
      \<longrightarrow> \<not> userCan w user action entityName resourceId)
   \<and> (action \<notin> {''create'', ''read'', ''update'', ''delete''}
      \<longrightarrow> \<not> userCan w user action ''App'' resourceId)
   \<and> (action \<noteq> ''create'' \<longrightarrow> \<not> userCan w user action ''Folder'' resourceId)"
  by (simp add: userCan_def canUserPerformActionOnApp_def canUserPerformActionOnFolder_def)

text \<open>
  Ada is an admin whose groups carry every flag, and she is still denied an unknown
  entity, an unknown action on an app and the deletion of a folder.
\<close>

theorem userCan_denies_by_default_witness:
  "hasGroup exampleWorld ada ''admin'' None
   \<and> \<not> userCan exampleWorld ada ''read'' ''Organization'' None
   \<and> \<not> userCan exampleWorld ada ''clone'' ''App'' (Some ''a1'')
   \<and> \<not> userCan exampleWorld ada ''delete'' ''Folder'' (Some ''f1'')"
proof -
  have admin: "hasGroup exampleWorld ada ''admin'' None"
    by (simp add: lookup_defs sample_defs)
  have "\<not> userCan exampleWorld ada ''read'' ''Organization'' None"
    using userCan_denies_by_default
      [where entityName = "''Organization''" and w = exampleWorld and user = ada
        and action = "''read''" and resourceId = None]
    by simp
  moreover have "\<not> userCan exampleWorld ada ''clone'' ''App'' (Some ''a1'')"
    using userCan_denies_by_default
      [where entityName = "''App''" and w = exampleWorld and user = ada
        and action = "''clone''" and resourceId = "Some ''a1''"]
    by simp
  moreover have "\<not> userCan exampleWorld ada ''delete'' ''Folder'' (Some ''f1'')"
    using userCan_denies_by_default
      [where entityName = "''Folder''" and w = exampleWorld and user = ada
        and action = "''delete''" and resourceId = "Some ''f1''"]
    by simp
  ultimately show ?thesis using admin by simp
qed


section \<open>Removing groups from a user\<close>

lemma throwErrorIfRemovingLastActiveAdmin_cases:
  "throwErrorIfRemovingLastActiveAdmin w user removeGroupsArg = Inr ()
   \<or> throwErrorIfRemovingLastActiveAdmin w user removeGroupsArg
       = Inl (BadRequestException ''Atleast one active admin is required.'')"
  by (simp add: throwErrorIfRemovingLastActiveAdmin_def Let_def)

lemma throwErrorIfRemovingLastActiveAdmin_admin:
  assumes "''admin'' \<in> set removeGroups"
  shows "throwErrorIfRemovingLastActiveAdmin w user (Some removeGroups)
         = (if lastActiveAdminQuery w user = []
            then Inl (BadRequestException ''Atleast one active admin is required.'')
            else Inr ())"
  using assms by (simp add: throwErrorIfRemovingLastActiveAdmin_def Let_def)

text \<open>
  Every user the specification counts is found by the query of the code: an active
  membership in the organisation is an active membership.
\<close>

lemma otherActiveAdmins_found_by_query:
  "set (otherActiveAdminsOfOrganization w user) \<subseteq> set (lastActiveAdminQuery w user)"
  by (auto simp: otherActiveAdminsOfOrganization_def lastActiveAdminQuery_def list_ex_iff)

text \<open>
  Claim C4. A list of groups to remove that contains \<^verbatim>\<open>all_users\<close> is refused with a
  BadRequest, whatever else it contains and whatever the user's memberships are, and
  the store is left as it was: no membership row of a group is deleted.
\<close>

theorem remove_all_users_refused:
  assumes "''all_users'' \<in> set removeGroups"
  shows "\<exists>m. removeUserGroupPermissionsIfExists user (Some removeGroups) w
              = (Inl (BadRequestException m), w)"
  using assms throwErrorIfRemovingLastActiveAdmin_cases [of w user "Some removeGroups"]
  by (auto simp: removeUserGroupPermissionsIfExists_def)

text \<open>
  Ada, who belongs to both groups, asks to leave \<^verbatim>\<open>all_users\<close> together with a group
  that does not exist.
\<close>

theorem remove_all_users_refused_witness:
  "''all_users'' \<in> set [''editors'', ''all_users'']
   \<and> removeUserGroupPermissionsIfExists ada (Some [''editors'', ''all_users'']) exampleWorld
       = (Inl (BadRequestException ''Cannot remove user from default group.''), exampleWorld)"
proof -
  have h: "''all_users'' \<in> set [''editors'', ''all_users'']" by simp
  from remove_all_users_refused [OF h, of ada exampleWorld]
  obtain m where
    m: "removeUserGroupPermissionsIfExists ada (Some [''editors'', ''all_users'']) exampleWorld
          = (Inl (BadRequestException m), exampleWorld)" ..
  have "fst (removeUserGroupPermissionsIfExists ada (Some [''editors'', ''all_users'']) exampleWorld)
          = Inl (BadRequestException ''Cannot remove user from default group.'')"
    by (simp add: removeUserGroupPermissionsIfExists_def throwErrorIfRemovingLastActiveAdmin_def)
  with m have "m = ''Cannot remove user from default group.''" by simp
  with m h show ?thesis by simp
qed

text \<open>
  What the guard does on every store when the list contains \<^verbatim>\<open>admin\<close>. It refuses, and
  writes nothing, when its query finds nobody. When the list does not contain
  \<^verbatim>\<open>all_users\<close> and another active member of the organisation holds the \<^verbatim>\<open>admin\<close>
  group, the call succeeds; and a call that succeeds deletes rows of the user alone, so
  the other active admins of the organisation are the same before and after.
\<close>

lemma remove_admin_refused:
  assumes "''admin'' \<in> set removeGroups" and "lastActiveAdminQuery w user = []"
  shows "removeUserGroupPermissionsIfExists user (Some removeGroups) w
           = (Inl (BadRequestException ''Atleast one active admin is required.''), w)"
  using assms(2)
  by (simp add: removeUserGroupPermissionsIfExists_def
      throwErrorIfRemovingLastActiveAdmin_admin [OF assms(1)])

lemma list_ex_filter_other_user:
  assumes "uid \<noteq> uid'"
  shows "list_ex (\<lambda>ugp. ugp_userId ugp = uid \<and> Q ugp)
           (filter (\<lambda>ugp. \<not> (P ugp \<and> ugp_userId ugp = uid')) rows)
         = list_ex (\<lambda>ugp. ugp_userId ugp = uid \<and> Q ugp) rows"
  using assms by (induction rows) auto

lemma otherActiveAdmins_after_delete:
  "otherActiveAdminsOfOrganization
     (w\<lparr>userGroupPermissionRepository :=
          filter (\<lambda>ugp. \<not> (ugp_groupPermissionId ugp \<in> set ids
                           \<and> ugp_userId ugp = user_id user))
            (userGroupPermissionRepository w)\<rparr>) user
   = otherActiveAdminsOfOrganization w user"
proof -
  let ?rows = "filter (\<lambda>ugp. \<not> (ugp_groupPermissionId ugp \<in> set ids
                                \<and> ugp_userId ugp = user_id user))
                 (userGroupPermissionRepository w)"
  have "filter (\<lambda>u.
          user_id u \<noteq> user_id user
          \<and> list_ex (\<lambda>ou. ou_userId ou = user_id u
                         \<and> Some (ou_organizationId ou) = user_organizationId user
                         \<and> ou_status ou = ''active'')
              (organizationUsersRepository w)
          \<and> list_ex (\<lambda>gp.
               gp_group gp = ''admin''
               \<and> Some (gp_organizationId gp) = user_organizationId user
               \<and> list_ex (\<lambda>ugp. ugp_userId ugp = user_id u
                                \<and> ugp_groupPermissionId ugp = gp_id gp) ?rows)
              (groupPermissionRepository w))
         (usersRepository w)
        = otherActiveAdminsOfOrganization w user"
    unfolding otherActiveAdminsOfOrganization_def
  proof (rule filter_cong [OF refl])
    fix x
    show "(user_id x \<noteq> user_id user
          \<and> list_ex (\<lambda>ou. ou_userId ou = user_id x
                         \<and> Some (ou_organizationId ou) = user_organizationId user
                         \<and> ou_status ou = ''active'')
              (organizationUsersRepository w)
          \<and> list_ex (\<lambda>gp.
               gp_group gp = ''admin''
               \<and> Some (gp_organizationId gp) = user_organizationId user
               \<and> list_ex (\<lambda>ugp. ugp_userId ugp = user_id x
                                \<and> ugp_groupPermissionId ugp = gp_id gp) ?rows)
              (groupPermissionRepository w))
        = (user_id x \<noteq> user_id user
          \<and> list_ex (\<lambda>ou. ou_userId ou = user_id x
                         \<and> Some (ou_organizationId ou) = user_organizationId user
                         \<and> ou_status ou = ''active'')
              (organizationUsersRepository w)
          \<and> list_ex (\<lambda>gp.
               gp_group gp = ''admin''
               \<and> Some (gp_organizationId gp) = user_organizationId user
               \<and> list_ex (\<lambda>ugp. ugp_userId ugp = user_id x
                                \<and> ugp_groupPermissionId ugp = gp_id gp)
                   (userGroupPermissionRepository w))
              (groupPermissionRepository w))"
    proof (cases "user_id x = user_id user")
      case True
      then show ?thesis by simp
    next
      case False
      show ?thesis by (simp only: list_ex_filter_other_user [OF False])
    qed
  qed
  then show ?thesis
    by (simp add: otherActiveAdminsOfOrganization_def)
qed

lemma remove_keeps_other_active_admins:
  assumes "removeUserGroupPermissionsIfExists user removeGroupsArg w = (Inr (), w')"
  shows "otherActiveAdminsOfOrganization w' user = otherActiveAdminsOfOrganization w user"
proof (cases removeGroupsArg)
  case None
  with assms show ?thesis by (simp add: removeUserGroupPermissionsIfExists_def)
next
  case (Some removeGroups)
  let ?ids = "map gp_id
                (filter (\<lambda>gp. gp_group gp \<in> set removeGroups
                              \<and> Some (gp_organizationId gp) = user_organizationId user)
                   (groupPermissionRepository w))"
  from assms Some have
    "w' = w\<lparr>userGroupPermissionRepository :=
              filter (\<lambda>ugp. \<not> (ugp_groupPermissionId ugp \<in> set ?ids
                               \<and> ugp_userId ugp = user_id user))
                (userGroupPermissionRepository w)\<rparr>"
    by (auto simp: removeUserGroupPermissionsIfExists_def Let_def
        split: sum.splits if_splits)
  then show ?thesis
    by (simp only: otherActiveAdmins_after_delete)
qed

lemma remove_admin_accepted:
  assumes "''admin'' \<in> set removeGroups" and "''all_users'' \<notin> set removeGroups"
    and "otherActiveAdminsOfOrganization w user \<noteq> []"
  shows "\<exists>w'. removeUserGroupPermissionsIfExists user (Some removeGroups) w = (Inr (), w')
              \<and> otherActiveAdminsOfOrganization w' user \<noteq> []"
proof -
  from assms(3) have "set (otherActiveAdminsOfOrganization w user) \<noteq> {}" by simp
  with otherActiveAdmins_found_by_query [of w user]
  have "lastActiveAdminQuery w user \<noteq> []" by auto
  with assms(2) obtain w' where
    ok: "removeUserGroupPermissionsIfExists user (Some removeGroups) w = (Inr (), w')"
    by (simp add: removeUserGroupPermissionsIfExists_def Let_def
        throwErrorIfRemovingLastActiveAdmin_admin [OF assms(1)])
  from remove_keeps_other_active_admins [OF ok] assms(3) ok show ?thesis by simp
qed

text \<open>
  With two active admins in the organisation Ada leaves the \<^verbatim>\<open>admin\<close> group and Bob
  remains its active admin; the same request together with \<^verbatim>\<open>all_users\<close> is refused by
  the guard of the default group.
\<close>

lemma remove_admin_two_admins:
  "activeAdminsOfOrganization twoAdminsWorld (Some ''o1'') = [adaRow, bobRow]
   \<and> fst (removeUserGroupPermissionsIfExists ada (Some [''admin'']) twoAdminsWorld) = Inr ()
   \<and> activeAdminsOfOrganization
        (snd (removeUserGroupPermissionsIfExists ada (Some [''admin'']) twoAdminsWorld))
        (Some ''o1'') = [bobRow]
   \<and> removeUserGroupPermissionsIfExists ada (Some [''admin'', ''all_users'']) twoAdminsWorld
       = (Inl (BadRequestException ''Cannot remove user from default group.''), twoAdminsWorld)"
  by (simp add: activeAdminsOfOrganization_def removeUserGroupPermissionsIfExists_def
      throwErrorIfRemovingLastActiveAdmin_def lastActiveAdminQuery_def twoAdminsWorld_def
      sample_defs)

lemma remove_admin_sole_admin:
  "removeUserGroupPermissionsIfExists ada (Some [''admin'']) soleAdminWorld
     = (Inl (BadRequestException ''Atleast one active admin is required.''), soleAdminWorld)"
  by (simp add: removeUserGroupPermissionsIfExists_def
      throwErrorIfRemovingLastActiveAdmin_def lastActiveAdminQuery_def soleAdminWorld_def
      sample_defs)

text \<open>
  Claim C2 at a failing input. In the sample store Ada is the only active member of her
  organisation that holds its \<^verbatim>\<open>admin\<close> group: Bob holds the group too, but his
  membership there is archived and his active membership is in another organisation. The
  specification counts no other active admin, so the removal of \<^verbatim>\<open>admin\<close> from Ada is
  to be refused. The query of the code joins the memberships without a condition on the
  organisation and finds Bob: the call succeeds, and afterwards the organisation has no
  active member that holds the \<^verbatim>\<open>admin\<close> group.
\<close>

theorem remove_admin_from_last_active_admin:
  "activeAdminsOfOrganization exampleWorld (Some ''o1'') = [adaRow]
   \<and> otherActiveAdminsOfOrganization exampleWorld ada = []
   \<and> lastActiveAdminQuery exampleWorld ada = [bobRow]
   \<and> fst (removeUserGroupPermissionsIfExists ada (Some [''admin'']) exampleWorld) = Inr ()
   \<and> activeAdminsOfOrganization
        (snd (removeUserGroupPermissionsIfExists ada (Some [''admin'']) exampleWorld))
        (Some ''o1'') = []"
  by (simp add: activeAdminsOfOrganization_def otherActiveAdminsOfOrganization_def
      removeUserGroupPermissionsIfExists_def throwErrorIfRemovingLastActiveAdmin_def
      lastActiveAdminQuery_def sample_defs)


section \<open>Login\<close>

lemma validateUser_Some_iff:
  "validateUser e w email password organisationId = Some user
   \<longleftrightarrow> findByEmail w email organisationId = Some user
       \<and> bcrypt_compare e password (user_password user)"
  by (auto simp: validateUser_def split: option.splits)

lemma validateUser_None_iff:
  "validateUser e w email password organisationId = None
   \<longleftrightarrow> findByEmail w email organisationId = None
       \<or> (\<exists>user. findByEmail w email organisationId = Some user
             \<and> \<not> bcrypt_compare e password (user_password user))"
  by (auto simp: validateUser_def split: option.splits)

text \<open>
  Claim C3. When the email resolves to a user, the password matches the stored hash and
  the status of the user is not \<^verbatim>\<open>archived\<close>, \<open>login\<close> returns a response whose token
  verifies to the id and email of that user and to the effective organisation, the one
  asked for or else the user's default (the organisation lookup, a service outside these
  sources, is taken to find that organisation). For an unknown email, for a wrong
  password and for the status \<^verbatim>\<open>archived\<close> it raises one and the same Unauthorized
  error and leaves the store as it was.
\<close>

theorem login_succeeds_or_unauthorized:
  "(findByEmail w (lp_email p) (lp_organizationId p) = Some user
      \<and> bcrypt_compare e (lp_password p) (user_password user)
      \<and> status w user = Inr st \<and> st \<noteq> ''archived''
      \<and> organizationsService_get sv
           (js_or (lp_organizationId p) (Some (user_defaultOrganizationId user))) w = Some org
    \<longrightarrow> (\<exists>r. login e sv p w = (Inr r, w)
            \<and> r_id r = user_id user
            \<and> r_organization_id r
                = js_or (lp_organizationId p) (Some (user_defaultOrganizationId user))
            \<and> verifyToken (r_auth_token r)
                = Some \<lparr>jp_username = user_id user, jp_sub = user_email user,
                        jp_organizationId =
                          js_or (lp_organizationId p) (Some (user_defaultOrganizationId user))\<rparr>))
   \<and> (findByEmail w (lp_email p) (lp_organizationId p) = None
      \<longrightarrow> login e sv p w = (Inl (UnauthorizedException ''Invalid credentials''), w))
   \<and> (findByEmail w (lp_email p) (lp_organizationId p) = Some user
        \<and> \<not> bcrypt_compare e (lp_password p) (user_password user)
      \<longrightarrow> login e sv p w = (Inl (UnauthorizedException ''Invalid credentials''), w))
   \<and> (findByEmail w (lp_email p) (lp_organizationId p) = Some user
        \<and> bcrypt_compare e (lp_password p) (user_password user)
        \<and> status w user = Inr ''archived''
      \<longrightarrow> login e sv p w = (Inl (UnauthorizedException ''Invalid credentials''), w))"
proof (intro conjI impI)
  assume a: "findByEmail w (lp_email p) (lp_organizationId p) = Some user
      \<and> bcrypt_compare e (lp_password p) (user_password user)
      \<and> status w user = Inr st \<and> st \<noteq> ''archived''
      \<and> organizationsService_get sv
           (js_or (lp_organizationId p) (Some (user_defaultOrganizationId user))) w = Some org"
  then have v: "validateUser e w (lp_email p) (lp_password p) (lp_organizationId p) = Some user"
    by (simp add: validateUser_Some_iff)
  from a v show "\<exists>r. login e sv p w = (Inr r, w)
            \<and> r_id r = user_id user
            \<and> r_organization_id r
                = js_or (lp_organizationId p) (Some (user_defaultOrganizationId user))
            \<and> verifyToken (r_auth_token r)
                = Some \<lparr>jp_username = user_id user, jp_sub = user_email user,
                        jp_organizationId =
                          js_or (lp_organizationId p) (Some (user_defaultOrganizationId user))\<rparr>"
    by (simp add: login_def Let_def sessionResponse_def verifyToken_def
        jwtService_verify_def jwtService_sign_def)
next
  assume "findByEmail w (lp_email p) (lp_organizationId p) = None"
  then have "validateUser e w (lp_email p) (lp_password p) (lp_organizationId p) = None"
    by (simp add: validateUser_None_iff)
  then show "login e sv p w = (Inl (UnauthorizedException ''Invalid credentials''), w)"
    by (simp add: login_def)
next
  assume "findByEmail w (lp_email p) (lp_organizationId p) = Some user
        \<and> \<not> bcrypt_compare e (lp_password p) (user_password user)"
  then have "validateUser e w (lp_email p) (lp_password p) (lp_organizationId p) = None"
    by (simp add: validateUser_None_iff)
  then show "login e sv p w = (Inl (UnauthorizedException ''Invalid credentials''), w)"
    by (simp add: login_def)
next
  assume a: "findByEmail w (lp_email p) (lp_organizationId p) = Some user
        \<and> bcrypt_compare e (lp_password p) (user_password user)
        \<and> status w user = Inr ''archived''"
  then have "validateUser e w (lp_email p) (lp_password p) (lp_organizationId p) = Some user"
    by (simp add: validateUser_Some_iff)
  with a show "login e sv p w = (Inl (UnauthorizedException ''Invalid credentials''), w)"
    by (simp add: login_def)
qed

text \<open>
  Ada logs in; an unknown email, a wrong password for Ada, and Bob, whose first
  membership is archived, get the same error.
\<close>

theorem login_succeeds_or_unauthorized_witness:
  "(\<exists>r. login exampleEnv exampleServices adaLogin exampleWorld = (Inr r, exampleWorld)
        \<and> r_id r = ''u1''
        \<and> r_organization_id r = Some ''o1''
        \<and> verifyToken (r_auth_token r)
            = Some \<lparr>jp_username = ''u1'', jp_sub = ''ada@example.com'',
                    jp_organizationId = Some ''o1''\<rparr>)
   \<and> login exampleEnv exampleServices (adaLogin\<lparr>lp_email := ''eve@example.com''\<rparr>) exampleWorld
       = (Inl (UnauthorizedException ''Invalid credentials''), exampleWorld)
   \<and> login exampleEnv exampleServices (adaLogin\<lparr>lp_password := ''guess''\<rparr>) exampleWorld
       = (Inl (UnauthorizedException ''Invalid credentials''), exampleWorld)
   \<and> login exampleEnv exampleServices bobLogin exampleWorld
       = (Inl (UnauthorizedException ''Invalid credentials''), exampleWorld)"
proof -
  have ok: "findByEmail exampleWorld (lp_email adaLogin) (lp_organizationId adaLogin) = Some adaRow
      \<and> bcrypt_compare exampleEnv (lp_password adaLogin) (user_password adaRow)
      \<and> status exampleWorld adaRow = Inr ''active'' \<and> ''active'' \<noteq> ''archived''
      \<and> organizationsService_get exampleServices
           (js_or (lp_organizationId adaLogin) (Some (user_defaultOrganizationId adaRow)))
           exampleWorld = Some \<lparr>org_id = ''o1'', org_name = ''Acme''\<rparr>"
    by (simp add: lookup_defs adaLogin_def bobLogin_def sample_defs)
  have unknown: "findByEmail exampleWorld (lp_email (adaLogin\<lparr>lp_email := ''eve@example.com''\<rparr>))
        (lp_organizationId (adaLogin\<lparr>lp_email := ''eve@example.com''\<rparr>)) = None"
    by (simp add: lookup_defs adaLogin_def bobLogin_def sample_defs)
  have wrong: "findByEmail exampleWorld (lp_email (adaLogin\<lparr>lp_password := ''guess''\<rparr>))
        (lp_organizationId (adaLogin\<lparr>lp_password := ''guess''\<rparr>)) = Some adaRow
      \<and> \<not> bcrypt_compare exampleEnv (lp_password (adaLogin\<lparr>lp_password := ''guess''\<rparr>))
            (user_password adaRow)"
    by (simp add: lookup_defs adaLogin_def bobLogin_def sample_defs)
  have archived: "findByEmail exampleWorld (lp_email bobLogin) (lp_organizationId bobLogin)
        = Some bobRow
      \<and> bcrypt_compare exampleEnv (lp_password bobLogin) (user_password bobRow)
      \<and> status exampleWorld bobRow = Inr ''archived''"
    by (simp add: lookup_defs adaLogin_def bobLogin_def sample_defs)
  have eff: "js_or (lp_organizationId adaLogin) (Some (user_defaultOrganizationId adaRow))
             = Some ''o1''"
    "user_id adaRow = ''u1''" "user_email adaRow = ''ada@example.com''"
    by (simp_all add: lookup_defs adaLogin_def bobLogin_def sample_defs)
  from login_succeeds_or_unauthorized
    [where w = exampleWorld and p = adaLogin and user = adaRow and e = exampleEnv
      and st = "''active''" and sv = exampleServices
      and org = "\<lparr>org_id = ''o1'', org_name = ''Acme''\<rparr>"] ok
  have "\<exists>r. login exampleEnv exampleServices adaLogin exampleWorld = (Inr r, exampleWorld)
        \<and> r_id r = ''u1''
        \<and> r_organization_id r = Some ''o1''
        \<and> verifyToken (r_auth_token r)
            = Some \<lparr>jp_username = ''u1'', jp_sub = ''ada@example.com'',
                    jp_organizationId = Some ''o1''\<rparr>"
    unfolding eff by blast
  moreover from login_succeeds_or_unauthorized
    [where w = exampleWorld and p = "adaLogin\<lparr>lp_email := ''eve@example.com''\<rparr>"
      and e = exampleEnv and sv = exampleServices] unknown
  have "login exampleEnv exampleServices (adaLogin\<lparr>lp_email := ''eve@example.com''\<rparr>) exampleWorld
       = (Inl (UnauthorizedException ''Invalid credentials''), exampleWorld)"
    by blast
  moreover from login_succeeds_or_unauthorized
    [where w = exampleWorld and p = "adaLogin\<lparr>lp_password := ''guess''\<rparr>" and user = adaRow
      and e = exampleEnv and sv = exampleServices] wrong
  have "login exampleEnv exampleServices (adaLogin\<lparr>lp_password := ''guess''\<rparr>) exampleWorld
       = (Inl (UnauthorizedException ''Invalid credentials''), exampleWorld)"
    by blast
  moreover from login_succeeds_or_unauthorized
    [where w = exampleWorld and p = bobLogin and user = bobRow
      and e = exampleEnv and sv = exampleServices] archived
  have "login exampleEnv exampleServices bobLogin exampleWorld
       = (Inl (UnauthorizedException ''Invalid credentials''), exampleWorld)"
    by blast
  ultimately show ?thesis by blast
qed

text \<open>
  Claim C6, as the code has it. The token of every successful login embeds three claims
  of the user the email resolved to: \<^verbatim>\<open>username\<close> is the user's id, \<^verbatim>\<open>sub\<close>, the
  subject, is the user's email, and \<^verbatim>\<open>organizationId\<close> is the effective organisation.
\<close>

theorem login_token_claims:
  assumes "login e sv p w = (Inr r, w')"
  shows "\<exists>user. findByEmail w (lp_email p) (lp_organizationId p) = Some user
           \<and> r_id r = user_id user
           \<and> r_auth_token r
               = jwtService_sign
                   \<lparr>jp_username = user_id user, jp_sub = user_email user,
                    jp_organizationId =
                      js_or (lp_organizationId p) (Some (user_defaultOrganizationId user))\<rparr>"
  using assms
  by (auto simp: login_def validateUser_def Let_def sessionResponse_def
      split: option.splits sum.splits if_splits)

theorem login_token_claims_witness:
  "\<exists>r. login exampleEnv exampleServices adaLogin exampleWorld = (Inr r, exampleWorld)
       \<and> r_id r = ''u1''
       \<and> r_auth_token r
           = jwtService_sign \<lparr>jp_username = ''u1'', jp_sub = ''ada@example.com'',
                              jp_organizationId = Some ''o1''\<rparr>"
proof -
  have "\<exists>r. login exampleEnv exampleServices adaLogin exampleWorld = (Inr r, exampleWorld)"
    by (simp add: login_def validateUser_def Let_def lookup_defs adaLogin_def
        sample_defs)
  then obtain r where
    r: "login exampleEnv exampleServices adaLogin exampleWorld = (Inr r, exampleWorld)" ..
  have found: "findByEmail exampleWorld (lp_email adaLogin) (lp_organizationId adaLogin)
               = Some adaRow"
    by (simp add: lookup_defs adaLogin_def sample_defs)
  have eff: "js_or (lp_organizationId adaLogin) (Some (user_defaultOrganizationId adaRow))
             = Some ''o1''"
    "user_id adaRow = ''u1''" "user_email adaRow = ''ada@example.com''"
    by (simp_all add: lookup_defs adaLogin_def sample_defs)
  from login_token_claims [OF r] found
  have "r_id r = user_id adaRow
        \<and> r_auth_token r
            = jwtService_sign
                \<lparr>jp_username = user_id adaRow, jp_sub = user_email adaRow,
                 jp_organizationId =
                   js_or (lp_organizationId adaLogin) (Some (user_defaultOrganizationId adaRow))\<rparr>"
    by auto
  with r show ?thesis unfolding eff by blast
qed

text \<open>
  The subject claim is not the user's id: in Ada's token it is her email, and her id is
  the \<^verbatim>\<open>username\<close> claim.
\<close>

theorem login_token_claims_counterexample:
  "map_sum (\<lambda>err. err) (\<lambda>r. (r_id r, map_option jp_sub (verifyToken (r_auth_token r))))
     (fst (login exampleEnv exampleServices adaLogin exampleWorld))
     = Inr (''u1'', Some ''ada@example.com'')
   \<and> ''ada@example.com'' \<noteq> ''u1''"
  by (simp add: login_def validateUser_def Let_def sessionResponse_def verifyToken_def
      jwtService_verify_def jwtService_sign_def lookup_defs adaLogin_def sample_defs)


section \<open>Password reset\<close>

lemma find_Some_mem: "find P xs = Some x \<Longrightarrow> x \<in> set xs \<and> P x"
  by (induction xs) (auto split: if_splits)

lemma findOne_after_update:
  assumes "u0 \<in> set (usersRepository w)"
  shows "findOne
           (w\<lparr>usersRepository :=
                map (\<lambda>u. if user_id u = user_id u0 then applyUpdateableParams a b c d u else u)
                  (usersRepository w)\<rparr>)
           (user_id u0) \<noteq> None"
proof -
  have "applyUpdateableParams a b c d u0
          \<in> set (map (\<lambda>u. if user_id u = user_id u0 then applyUpdateableParams a b c d u else u)
                   (usersRepository w))"
    using assms by force
  moreover have "user_id (applyUpdateableParams a b c d u0) = user_id u0"
    by (simp add: applyUpdateableParams_def)
  ultimately show ?thesis
    unfolding findOne_def find_None_iff by (simp del: set_map) blast
qed

text \<open>
  The update that \<open>resetPassword\<close> asks for: the token is set to \<^verbatim>\<open>null\<close> on the rows of
  the user, and the password is set to its hash unless it is the empty string, which
  \<^verbatim>\<open>update\<close> takes for a password that was not given.
\<close>

lemma update_of_resetPassword:
  assumes "u0 \<in> set (usersRepository w)"
  shows "\<exists>r. update e (user_id u0)
               \<lparr>up_forgotPasswordToken = Null, up_password = Some password,
                up_firstName = None, up_lastName = None,
                up_addGroups = None, up_removeGroups = None\<rparr> False w
             = (Inr r,
                w\<lparr>usersRepository :=
                    map (\<lambda>u. if user_id u = user_id u0
                              then u\<lparr>user_forgotPasswordToken := None,
                                     user_password :=
                                       (if password = [] then user_password u
                                        else bcrypt_hashSync e password)\<rparr>
                              else u)
                      (usersRepository w)\<rparr>)"
proof -
  let ?hp = "if password = [] then None else Some (bcrypt_hashSync e password)"
  from findOne_after_update [OF assms, of Null None None ?hp]
  obtain u1 where
    "findOne
       (w\<lparr>usersRepository :=
            map (\<lambda>u. if user_id u = user_id u0 then applyUpdateableParams Null None None ?hp u
                      else u)
              (usersRepository w)\<rparr>)
       (user_id u0) = Some u1"
    by blast
  then show ?thesis
    by (cases "password = []")
      (simp_all add: update_def performUpdateInTransaction_def Let_def andThen_def
        applyUpdateableParams_def removeUserGroupPermissionsIfExists_def
        addUserGroupPermissions_def cong: if_cong)
qed

text \<open>
  Claim C5, as the code has it. Without a user that carries the token, \<open>resetPassword\<close>
  raises NotFound and leaves the store as it was. With one, it sets the token of that
  user to \<^verbatim>\<open>null\<close> and, when the password is not the empty string, the password to its
  hash; an empty password leaves the stored hash. When the user is the only one that
  carries the token, a second call with the same token raises NotFound.
\<close>

theorem resetPassword_single_use:
  "(findByPasswordResetToken w token = None
      \<longrightarrow> resetPassword e token password w = (Inl (NotFoundException ''Invalid token''), w))
   \<and> (findByPasswordResetToken w token = Some user
      \<longrightarrow> resetPassword e token password w
          = (Inr (),
             w\<lparr>usersRepository :=
                 map (\<lambda>u. if user_id u = user_id user
                           then u\<lparr>user_forgotPasswordToken := None,
                                  user_password :=
                                    (if password = [] then user_password u
                                     else bcrypt_hashSync e password)\<rparr>
                           else u)
                   (usersRepository w)\<rparr>))
   \<and> (findByPasswordResetToken w token = Some user
        \<and> (\<forall>u \<in> set (usersRepository w).
              user_forgotPasswordToken u = Some token \<longrightarrow> user_id u = user_id user)
      \<longrightarrow> resetPassword e token again (snd (resetPassword e token password w))
          = (Inl (NotFoundException ''Invalid token''), snd (resetPassword e token password w)))"
proof (intro conjI impI)
  assume "findByPasswordResetToken w token = None"
  then show "resetPassword e token password w = (Inl (NotFoundException ''Invalid token''), w)"
    by (simp add: resetPassword_def)
next
  assume found: "findByPasswordResetToken w token = Some user"
  then have "user \<in> set (usersRepository w)"
    by (auto simp: findByPasswordResetToken_def dest: find_Some_mem)
  from update_of_resetPassword [OF this, of e password] found
  show "resetPassword e token password w
          = (Inr (),
             w\<lparr>usersRepository :=
                 map (\<lambda>u. if user_id u = user_id user
                           then u\<lparr>user_forgotPasswordToken := None,
                                  user_password :=
                                    (if password = [] then user_password u
                                     else bcrypt_hashSync e password)\<rparr>
                           else u)
                   (usersRepository w)\<rparr>)"
    by (auto simp: resetPassword_def andThen_def)
next
  assume a: "findByPasswordResetToken w token = Some user
        \<and> (\<forall>u \<in> set (usersRepository w).
              user_forgotPasswordToken u = Some token \<longrightarrow> user_id u = user_id user)"
  then have "user \<in> set (usersRepository w)"
    by (auto simp: findByPasswordResetToken_def dest: find_Some_mem)
  from update_of_resetPassword [OF this, of e password] a
  have first: "snd (resetPassword e token password w)
          = w\<lparr>usersRepository :=
                 map (\<lambda>u. if user_id u = user_id user
                           then u\<lparr>user_forgotPasswordToken := None,
                                  user_password :=
                                    (if password = [] then user_password u
                                     else bcrypt_hashSync e password)\<rparr>
                           else u)
                   (usersRepository w)\<rparr>"
    by (auto simp: resetPassword_def andThen_def)
  have "findByPasswordResetToken (snd (resetPassword e token password w)) token = None"
    unfolding first findByPasswordResetToken_def find_None_iff using a by auto
  then show "resetPassword e token again (snd (resetPassword e token password w))
          = (Inl (NotFoundException ''Invalid token''), snd (resetPassword e token password w))"
    by (simp add: resetPassword_def)
qed

text \<open>
  An unknown token is refused; Ada's token sets her password to the hash of the new one
  and is gone afterwards, so that its second use is refused.
\<close>

theorem resetPassword_single_use_witness:
  "resetPassword exampleEnv ''t0'' ''correct horse'' exampleWorld
     = (Inl (NotFoundException ''Invalid token''), exampleWorld)
   \<and> resetPassword exampleEnv ''t1'' ''correct horse'' exampleWorld
       = (Inr (),
          exampleWorld\<lparr>usersRepository :=
            [adaRow\<lparr>user_forgotPasswordToken := None,
                    user_password := ''$2b$10$correct horse''\<rparr>, bobRow]\<rparr>)
   \<and> resetPassword exampleEnv ''t1'' ''battery staple''
        (snd (resetPassword exampleEnv ''t1'' ''correct horse'' exampleWorld))
       = (Inl (NotFoundException ''Invalid token''),
          snd (resetPassword exampleEnv ''t1'' ''correct horse'' exampleWorld))"
proof -
  have none: "findByPasswordResetToken exampleWorld ''t0'' = None"
    by (simp add: lookup_defs sample_defs)
  have some: "findByPasswordResetToken exampleWorld ''t1'' = Some adaRow"
    by (simp add: lookup_defs sample_defs)
  have only: "\<forall>u \<in> set (usersRepository exampleWorld).
                user_forgotPasswordToken u = Some ''t1'' \<longrightarrow> user_id u = user_id adaRow"
    by (simp add: sample_defs)
  have rows: "map (\<lambda>u. if user_id u = user_id adaRow
                        then u\<lparr>user_forgotPasswordToken := None,
                               user_password :=
                                 (if ''correct horse'' = [] then user_password u
                                  else bcrypt_hashSync exampleEnv ''correct horse'')\<rparr>
                        else u)
                (usersRepository exampleWorld)
              = [adaRow\<lparr>user_forgotPasswordToken := None,
                        user_password := ''$2b$10$correct horse''\<rparr>, bobRow]"
    by (simp add: sample_defs)
  from resetPassword_single_use
    [where w = exampleWorld and token = "''t0''" and e = exampleEnv
      and password = "''correct horse''"] none
  have "resetPassword exampleEnv ''t0'' ''correct horse'' exampleWorld
     = (Inl (NotFoundException ''Invalid token''), exampleWorld)"
    by blast
  moreover note t1 = resetPassword_single_use
    [where w = exampleWorld and token = "''t1''" and e = exampleEnv and user = adaRow
      and password = "''correct horse''" and again = "''battery staple''"]
  from t1 some have "resetPassword exampleEnv ''t1'' ''correct horse'' exampleWorld
       = (Inr (),
          exampleWorld\<lparr>usersRepository :=
            [adaRow\<lparr>user_forgotPasswordToken := None,
                    user_password := ''$2b$10$correct horse''\<rparr>, bobRow]\<rparr>)"
    unfolding rows by blast
  moreover from t1 some only have "resetPassword exampleEnv ''t1'' ''battery staple''
        (snd (resetPassword exampleEnv ''t1'' ''correct horse'' exampleWorld))
       = (Inl (NotFoundException ''Invalid token''),
          snd (resetPassword exampleEnv ''t1'' ''correct horse'' exampleWorld))"
    by blast
  ultimately show ?thesis by blast
qed

text \<open>
  The password is not always updated: reset with the empty string, Ada's token is used
  up and her stored hash is still the old one, not the hash of the empty string. And a
  token is used up for one user only: when two rows carry it, the second call succeeds,
  on the second row.
\<close>

theorem resetPassword_single_use_counterexample:
  "findByPasswordResetToken exampleWorld ''t1'' = Some adaRow
   \<and> fst (resetPassword exampleEnv ''t1'' [] exampleWorld) = Inr ()
   \<and> map user_password (usersRepository (snd (resetPassword exampleEnv ''t1'' [] exampleWorld)))
       = [''$2b$10$secret'', ''$2b$10$hunter2'']
   \<and> bcrypt_hashSync exampleEnv [] = ''$2b$10$''
   \<and> fst (resetPassword exampleEnv ''t1'' ''correct horse'' sharedTokenWorld) = Inr ()
   \<and> fst (resetPassword exampleEnv ''t1'' ''battery staple''
             (snd (resetPassword exampleEnv ''t1'' ''correct horse'' sharedTokenWorld))) = Inr ()"
  by (simp add: resetPassword_def update_def performUpdateInTransaction_def andThen_def
      applyUpdateableParams_def removeUserGroupPermissionsIfExists_def
      addUserGroupPermissions_def lookup_defs sharedTokenWorld_def sample_defs)


section \<open>Signup and forgotten passwords\<close>

text \<open>
  Claim C8. With \<^verbatim>\<open>DISABLE_SIGNUPS\<close> set to \<^verbatim>\<open>true\<close>, \<open>signup\<close> returns the empty result
  and the state is the one it started from, whatever the services would do: no
  organisation, user, membership or group row is written and no mail is sent.
\<close>

theorem signup_disabled_no_writes:
  assumes "DISABLE_SIGNUPS e = Some ''true''"
  shows "signup e sv email fr w = (Inr (), w)"
  using assms by (simp add: signup_def)

theorem signup_disabled_no_writes_witness:
  "DISABLE_SIGNUPS (exampleEnv\<lparr>DISABLE_SIGNUPS := Some ''true''\<rparr>) = Some ''true''
   \<and> signup (exampleEnv\<lparr>DISABLE_SIGNUPS := Some ''true''\<rparr>) exampleServices
        ''carol@example.com'' carolFresh exampleWorld
       = (Inr (), exampleWorld)"
proof -
  have h: "DISABLE_SIGNUPS (exampleEnv\<lparr>DISABLE_SIGNUPS := Some ''true''\<rparr>) = Some ''true''"
    by simp
  from signup_disabled_no_writes [OF h] h show ?thesis by simp
qed

text \<open>With the variable not set the same call writes rows and sends the welcome mail.\<close>

lemma signup_enabled_writes:
  "fst (signup exampleEnv exampleServices ''carol@example.com'' carolFresh exampleWorld) = Inr ()
   \<and> map user_email (usersRepository signedUpWorld)
       = [''ada@example.com'', ''bob@example.com'', ''carol@example.com'']
   \<and> outbox signedUpWorld = [WelcomeEmail ''carol@example.com'' None (Some ''inv9'')]"
  by (simp add: signup_def create_def Let_def andThen_def carolFresh_def signedUpWorld_def
      sample_defs)

text \<open>
  Claim C10. For an email that resolves to no user, \<open>forgotPassword\<close> does not return
  normally and raises none of the designated error kinds: reading the id of the missing
  user is a TypeError, raised before anything is written or sent.
\<close>

theorem forgotPassword_unknown_email:
  assumes "findByEmail w email None = None"
  shows "forgotPassword e sv email forgotPasswordToken w
           = (Inl (TypeError ''Cannot read property id of undefined''), w)
         \<and> \<not> designated (TypeError ''Cannot read property id of undefined'')"
  using assms by (simp add: forgotPassword_def)

theorem forgotPassword_unknown_email_witness:
  "findByEmail exampleWorld ''eve@example.com'' None = None
   \<and> forgotPassword exampleEnv exampleServices ''eve@example.com'' ''tok'' exampleWorld
       = (Inl (TypeError ''Cannot read property id of undefined''), exampleWorld)"
proof -
  have h: "findByEmail exampleWorld ''eve@example.com'' None = None"
    by (simp add: lookup_defs sample_defs)
  from forgotPassword_unknown_email [OF h] h show ?thesis by simp
qed

text \<open>For a known email the token is stored on the user and mailed.\<close>

lemma forgotPassword_known_email:
  "fst (forgotPassword exampleEnv exampleServices ''bob@example.com'' ''tok'' exampleWorld) = Inr ()
   \<and> map user_forgotPasswordToken
       (usersRepository
          (snd (forgotPassword exampleEnv exampleServices ''bob@example.com'' ''tok'' exampleWorld)))
       = [Some ''t1'', Some ''tok'']
   \<and> outbox (snd (forgotPassword exampleEnv exampleServices ''bob@example.com'' ''tok'' exampleWorld))
       = [PasswordResetEmail ''bob@example.com'' ''tok'']"
  by (simp add: forgotPassword_def update_def performUpdateInTransaction_def andThen_def
      applyUpdateableParams_def removeUserGroupPermissionsIfExists_def
      addUserGroupPermissions_def lookup_defs sample_defs)


section \<open>Account setup from an invitation\<close>

text \<open>
  What holds of \<open>setupAccountFromInvitationToken\<close> on every store: a lookup that misses
  is a BadRequest that writes nothing, and a call that returns has cleared the token of
  the user, cleared the token of the membership and made the membership active.
\<close>

lemma resolveInvitation_error:
  assumes "resolveInvitation w params = Inl err"
  shows "err = BadRequestException ''Invalid invitation link''"
  using assms
  by (auto simp: resolveInvitation_def split: if_splits option.splits)

lemma setupAccount_lookup_miss:
  assumes "resolveInvitation w params = Inl err"
  shows "setupAccountFromInvitationToken params w
           = (Inl (BadRequestException ''Invalid invitation link''), w)"
  using assms resolveInvitation_error [OF assms]
  by (simp add: setupAccountFromInvitationToken_def)

lemma resolveInvitation_miss_iff:
  "(\<exists>err. resolveInvitation w params = Inl err)
   \<longleftrightarrow> (if sp_new_signup params
        then (case find (\<lambda>u. user_invitationToken u = Some (sp_token params))
                     (usersRepository w) of
                None \<Rightarrow> True
              | Some user \<Rightarrow>
                  find (\<lambda>ou. ou_organizationId ou = user_defaultOrganizationId user)
                    (filter (\<lambda>ou. ou_userId ou = user_id user)
                       (organizationUsersRepository w)) = None)
        else (case find (\<lambda>ou. ou_invitationToken ou = Some (sp_token params))
                     (organizationUsersRepository w) of
                None \<Rightarrow> True
              | Some organizationUser \<Rightarrow>
                  find (\<lambda>u. user_id u = ou_userId organizationUser) (usersRepository w)
                    = None))"
  by (auto simp: resolveInvitation_def split: option.splits)

lemma setupAccount_returns:
  assumes "setupAccountFromInvitationToken params w = (Inr (), w')"
  shows "\<exists>user organizationUser.
           resolveInvitation w params = Inr (user, organizationUser)
           \<and> usersRepository w' = save user_id (assignUser user params) (usersRepository w)
           \<and> user_invitationToken (assignUser user params) = None
           \<and> organizationUsersRepository w'
               = save ou_id
                   (organizationUser\<lparr>ou_invitationToken := None, ou_status := ''active''\<rparr>)
                   (organizationUsersRepository w)"
  using assms
  by (auto simp: setupAccountFromInvitationToken_def Let_def assignUser_def
      organizationsRepository_updateName_def split: sum.splits option.splits if_splits)

text \<open>
  The rename of the organisation goes by \<^verbatim>\<open>user.organizationId\<close>, which \<open>create\<close>
  leaves empty; the membership was found by \<^verbatim>\<open>user.defaultOrganizationId\<close>. On a user
  without that property the last step fails after the two saves, and no organisation
  has been renamed.
\<close>

lemma create_leaves_organizationId_empty:
  assumes "create userParams organizationId groups fr w = (Inr user, w')"
  shows "user_organizationId user = None \<and> user_defaultOrganizationId user = organizationId"
  using assms
  by (auto simp: create_def Let_def split: option.splits prod.splits sum.splits)

lemma setupAccount_rename_needs_organizationId:
  assumes "resolveInvitation w params = Inr (user, organizationUser)"
    and "sp_new_signup params" and "truthy (sp_organization params)"
    and "user_organizationId user = None"
  shows "fst (setupAccountFromInvitationToken params w)
           = Inl (OrmError ''Empty criteria(s) are not allowed for the update method.'')
         \<and> organizationsRepository (snd (setupAccountFromInvitationToken params w))
             = organizationsRepository w"
  using assms
  by (auto simp: setupAccountFromInvitationToken_def Let_def assignUser_def truthy_def
      organizationsRepository_updateName_def split: option.splits)

text \<open>
  Claim C9 at a failing input. Carol signs up on the sample store and answers the
  invitation with the organisation name \<^verbatim>\<open>Initech\<close>. Her token is cleared and her
  membership is active, but the call ends in an error of the ORM and her organisation
  is still called \<^verbatim>\<open>Untitled organization\<close>.
\<close>

theorem setupAccount_new_signup_keeps_name:
  "fst (signup exampleEnv exampleServices ''carol@example.com'' carolFresh exampleWorld) = Inr ()
   \<and> fst (setupAccountFromInvitationToken carolSetup signedUpWorld)
       = Inl (OrmError ''Empty criteria(s) are not allowed for the update method.'')
   \<and> organizationsRepository (snd (setupAccountFromInvitationToken carolSetup signedUpWorld))
       = [\<lparr>org_id = ''o1'', org_name = ''Acme''\<rparr>, \<lparr>org_id = ''o2'', org_name = ''Globex''\<rparr>,
          \<lparr>org_id = ''o9'', org_name = ''Untitled organization''\<rparr>]
   \<and> map user_invitationToken
        (usersRepository (snd (setupAccountFromInvitationToken carolSetup signedUpWorld)))
       = [None, None, None]
   \<and> map ou_status
        (organizationUsersRepository
           (snd (setupAccountFromInvitationToken carolSetup signedUpWorld)))
       = [''active'', ''archived'', ''active'', ''active'']"
  by (simp add: signup_def create_def Let_def andThen_def setupAccountFromInvitationToken_def
      resolveInvitation_def assignUser_def save_def organizationsRepository_updateName_def
      truthy_def carolFresh_def signedUpWorld_def carolSetup_def sample_defs)

end
